theory Spec2Isabelle
  imports Main
begin

section \<open>Time, errors and tokens\<close>

text \<open>
  A naive UTC \<^verbatim>\<open>datetime\<close> is the number of microseconds since the epoch, the
  resolution of Python's \<^verbatim>\<open>datetime\<close>; \<^verbatim>\<open>timedelta(minutes=m)\<close> is
  \<open>m\<close> times sixty million of them. One request reads the clock at one instant
  \<open>now\<close>: the successive \<^verbatim>\<open>datetime.utcnow()\<close> calls of a handler are
  taken at the same instant.
\<close>

type_synonym datetime = int

definition timedelta_minutes :: "int \<Rightarrow> int" where
  "timedelta_minutes m = m * 60000000"

text \<open>The constants of \<^verbatim>\<open>routes.py\<close> and \<^verbatim>\<open>utils.py\<close>.\<close>

definition MAX_OTP_RESEND :: int where
  "MAX_OTP_RESEND = 3"

definition MAX_OTP_ATTEMPTS :: int where
  "MAX_OTP_ATTEMPTS = 5"

definition OTP_VALIDITY_MINUTES :: int where
  "OTP_VALIDITY_MINUTES = 5"

definition LOCK_DURATION_MINUTES :: int where
  "LOCK_DURATION_MINUTES = 30"

definition ACCESS_TOKEN_EXPIRE_MINUTES :: int where
  "ACCESS_TOKEN_EXPIRE_MINUTES = 360"

text \<open>
  Every failure of a handler is a value: \<^verbatim>\<open>HTTPException(status_code, detail)\<close>
  as raised by the code, or the \<^verbatim>\<open>IntegrityError\<close> that the commit of a row
  violating a constraint of the schema raises, or the \<^verbatim>\<open>StatementError\<close> that the
  commit of a value its column cannot take raises (the transaction is then lost).
\<close>

datatype error = HTTPException int string | IntegrityError | StatementError

text \<open>
  \<^verbatim>\<open>create_access_token\<close> signs the claims \<^verbatim>\<open>sub\<close> and \<^verbatim>\<open>exp\<close>;
  the token is modelled by the claims it carries. The subject is \<^verbatim>\<open>str(user.id)\<close>
  for a user and the e-mail address for a developer.
\<close>

datatype subject = SubUserId int | SubEmail string

record access_token =
  sub :: subject
  exp :: datetime

definition create_access_token :: "datetime \<Rightarrow> subject \<Rightarrow> access_token" where
  "create_access_token now s =
     \<lparr>sub = s, exp = now + timedelta_minutes ACCESS_TOKEN_EXPIRE_MINUTES\<rparr>"

record auth_response =
  message :: string
  token :: access_token
  token_type :: string

section \<open>The tables\<close>

text \<open>
  One record per model class of \<^verbatim>\<open>models/\<close>, a nullable column as an option. A
  table is the list of its rows in insertion order; \<^verbatim>\<open>query(...).first()\<close> is
  \<^const>\<open>find\<close> on it.
\<close>

record User =
  u_id :: int
  u_email :: string
  u_full_name :: string
  u_profile_image :: "string option"
  u_onboarded :: bool

record OTP_Tbl =
  o_id :: int
  o_email :: string
  otp_code :: string
  o_full_name :: "string option"
  created_at :: datetime
  attempts :: int
  resend_count :: int
  locked_until :: "datetime option"

record Collaborator =
  c_id :: int
  c_user_id :: "int option"
  c_user_email :: string
  c_access_type :: string
  c_workspace_id :: int
  c_feedback_id :: "int option"
  c_invited_by_id :: "int option"

record Workspace =
  w_id :: int
  w_name :: string
  w_subdomain :: string
  w_type :: string
  w_purpose :: string
  w_role :: string
  w_icon_url :: "string option"
  w_invite_emails :: "string option"
  w_owner_id :: int

datatype FeedbackStatus = draft | sent | edited

record Feedback =
  f_id :: int
  f_name :: string
  f_created_by :: int
  f_status :: "FeedbackStatus option"
  f_url :: "string option"
  f_screenshot_url :: "string option"
  f_recording_url :: "string option"
  f_voice_recording_url :: "string option"
  f_message :: "string option"
  f_created_at :: datetime
  f_developer_email :: "string option"
  f_workspace_id :: int

datatype AccessLevel = comment | edit

record FeedbackAccess =
  a_id :: int
  a_feedback_id :: int
  a_user_id :: "int option"
  a_user_email :: string
  a_access_type :: AccessLevel

record Developer =
  d_id :: int
  d_email :: string
  d_workspace_id :: "int option"
  d_invited_by_workspace_id :: "int option"

datatype FeedbackDeveloperStatus = pending | acknowledged | unclear

record FeedbackDeveloper =
  l_id :: int
  l_feedback_id :: int
  l_developer_id :: int
  l_status :: FeedbackDeveloperStatus
  l_action_time :: "datetime option"

text \<open>A message handed to the SMTP collaborator.\<close>

datatype mail = OtpMail string string | FeedbackMail string int string access_token

record db =
  users :: "User list"
  otps :: "OTP_Tbl list"
  collaborators :: "Collaborator list"
  workspaces :: "Workspace list"
  feedbacks :: "Feedback list"
  feedback_accesses :: "FeedbackAccess list"
  developers :: "Developer list"
  feedback_developers :: "FeedbackDeveloper list"
  outbox :: "mail list"

text \<open>
  An autoincrement primary key is an id no row of the table has yet: one more than the
  largest.
\<close>

definition next_id :: "int list \<Rightarrow> int" where
  "next_id ids = fold max ids 0 + 1"

text \<open>
  The session mutates the row object a query returned and commits: the row is replaced
  where it stands in the table.
\<close>

fun replace_row :: "'a \<Rightarrow> 'a \<Rightarrow> 'a list \<Rightarrow> 'a list" where
  "replace_row old new [] = []"
| "replace_row old new (x # xs) =
     (if x = old then new # xs else x # replace_row old new xs)"

definition is_locked :: "datetime \<Rightarrow> OTP_Tbl \<Rightarrow> bool" where
  "is_locked now r = (case locked_until r of None \<Rightarrow> False | Some l \<Rightarrow> l > now)"

section \<open>The OTP routes of \<^verbatim>\<open>routes.py\<close>\<close>

text \<open>
  \<^verbatim>\<open>bcrypt\<close> is a library outside the repository: its \<^verbatim>\<open>hashpw\<close> and
  \<^verbatim>\<open>checkpw\<close> are parameters of the handlers, and nothing is assumed of them.
  The code \<^verbatim>\<open>generate_otp()\<close> draws and the salt \<^verbatim>\<open>bcrypt.gensalt()\<close> draws
  are parameters too. The SMTP collaborator is taken to deliver.
\<close>

definition signup_request ::
  "(string \<Rightarrow> string \<Rightarrow> string) \<Rightarrow> string \<Rightarrow> string \<Rightarrow> datetime \<Rightarrow>
   string \<Rightarrow> string \<Rightarrow> db \<Rightarrow> (error + string) \<times> db" where
  "signup_request hashpw otp salt now email full_name s =
     (case find (\<lambda>u. u_email u = email) (users s) of
        Some existing_user \<Rightarrow> (Inl (HTTPException 400 ''User already exists''), s)
      | None \<Rightarrow>
          (let hashed_otp = hashpw otp salt;
               kept = filter (\<lambda>r. o_email r \<noteq> email) (otps s);
               new = \<lparr>o_id = next_id (map o_id kept), o_email = email,
                      otp_code = hashed_otp, o_full_name = Some full_name,
                      created_at = now, attempts = 0, resend_count = 1,
                      locked_until = None\<rparr>
           in (Inr ''OTP sent to your email'',
               s\<lparr>otps := kept @ [new], outbox := outbox s @ [OtpMail email otp]\<rparr>)))"

definition signup_verify ::
  "(string \<Rightarrow> string \<Rightarrow> bool) \<Rightarrow> datetime \<Rightarrow> string \<Rightarrow> string \<Rightarrow> db \<Rightarrow>
   (error + auth_response) \<times> db" where
  "signup_verify checkpw now email otp s =
     (case find (\<lambda>r. o_email r = email) (otps s) of
        None \<Rightarrow> (Inl (HTTPException 400 ''No OTP request found for this email''), s)
      | Some otp_record \<Rightarrow>
          if is_locked now otp_record then
            (Inl (HTTPException 403 ''Too many incorrect attempts. Try again later.''), s)
          else if now > created_at otp_record + timedelta_minutes OTP_VALIDITY_MINUTES then
            (Inl (HTTPException 400 ''OTP has expired. Please request again.''),
             s\<lparr>otps := remove1 otp_record (otps s)\<rparr>)
          else if \<not> checkpw otp (otp_code otp_record) then
            (let n = attempts otp_record + 1;
                 r1 = otp_record\<lparr>attempts := n\<rparr>;
                 r2 = (if n \<ge> MAX_OTP_ATTEMPTS
                       then r1\<lparr>locked_until :=
                              Some (now + timedelta_minutes LOCK_DURATION_MINUTES)\<rparr>
                       else r1)
             in (Inl (HTTPException 400 ''Incorrect OTP.''),
                 s\<lparr>otps := replace_row otp_record r2 (otps s)\<rparr>))
          else
            (case find (\<lambda>u. u_email u = email) (users s) of
               Some existing_user \<Rightarrow>
                 (Inr \<lparr>message = ''User already registered'',
                       token = create_access_token now (SubUserId (u_id existing_user)),
                       token_type = ''bearer''\<rparr>,
                  s\<lparr>otps := remove1 otp_record (otps s)\<rparr>)
             | None \<Rightarrow>
                 (case o_full_name otp_record of
                    None \<Rightarrow> (Inl IntegrityError, s)
                  | Some name \<Rightarrow>
                      (let user = \<lparr>u_id = next_id (map u_id (users s)), u_email = email,
                                    u_full_name = name, u_profile_image = None,
                                    u_onboarded = False\<rparr>
                       in (Inr \<lparr>message = ''Signup successful'',
                                 token = create_access_token now (SubUserId (u_id user)),
                                 token_type = ''bearer''\<rparr>,
                           s\<lparr>users := users s @ [user],
                             otps := remove1 otp_record (otps s)\<rparr>)))))"

definition signin_request ::
  "(string \<Rightarrow> string \<Rightarrow> string) \<Rightarrow> string \<Rightarrow> string \<Rightarrow> datetime \<Rightarrow>
   string \<Rightarrow> db \<Rightarrow> (error + string) \<times> db" where
  "signin_request hashpw otp salt now email s =
     (let provision =
        (case find (\<lambda>u. u_email u = email) (users s) of
           Some user \<Rightarrow> Inr s
         | None \<Rightarrow>
             (case find (\<lambda>c. c_user_email c = email) (collaborators s) of
                None \<Rightarrow> Inl (HTTPException 404 ''User not found or not invited.'')
              | Some collaborator \<Rightarrow>
                  (let user = \<lparr>u_id = next_id (map u_id (users s)), u_email = email,
                                u_full_name = ''Invited User'', u_profile_image = None,
                                u_onboarded = True\<rparr>
                   in Inr (s\<lparr>users := users s @ [user],
                              collaborators :=
                                replace_row collaborator
                                  (collaborator\<lparr>c_user_id := Some (u_id user)\<rparr>)
                                  (collaborators s)\<rparr>))))
      in case provision of
           Inl e \<Rightarrow> (Inl e, s)
         | Inr s1 \<Rightarrow>
             (let hashed_otp = hashpw otp salt
              in case find (\<lambda>r. o_email r = email) (otps s1) of
                   Some otp_record \<Rightarrow>
                     if resend_count otp_record \<ge> MAX_OTP_RESEND then
                       (Inl (HTTPException 429 ''OTP resend limit reached.''), s1)
                     else
                       (Inr ''OTP sent to your email'',
                        s1\<lparr>otps := replace_row otp_record
                                       (otp_record\<lparr>otp_code := hashed_otp,
                                          resend_count := resend_count otp_record + 1,
                                          created_at := now\<rparr>)
                                       (otps s1),
                           outbox := outbox s1 @ [OtpMail email otp]\<rparr>)
                 | None \<Rightarrow>
                     (Inr ''OTP sent to your email'',
                      s1\<lparr>otps := otps s1 @
                            [\<lparr>o_id = next_id (map o_id (otps s1)), o_email = email,
                              otp_code = hashed_otp, o_full_name = None,
                              created_at = now, attempts = 0, resend_count = 1,
                              locked_until = None\<rparr>],
                         outbox := outbox s1 @ [OtpMail email otp]\<rparr>)))"

definition signin_verify ::
  "(string \<Rightarrow> string \<Rightarrow> bool) \<Rightarrow> datetime \<Rightarrow> string \<Rightarrow> string \<Rightarrow> db \<Rightarrow>
   (error + auth_response) \<times> db" where
  "signin_verify checkpw now email otp s =
     (case find (\<lambda>r. o_email r = email) (otps s) of
        None \<Rightarrow> (Inl (HTTPException 400 ''No OTP request found for this email''), s)
      | Some record \<Rightarrow>
          if is_locked now record then
            (Inl (HTTPException 403 ''Too many incorrect attempts. Try again later.''), s)
          else if now > created_at record + timedelta_minutes OTP_VALIDITY_MINUTES then
            (Inl (HTTPException 400 ''OTP has expired''),
             s\<lparr>otps := remove1 record (otps s)\<rparr>)
          else if \<not> checkpw otp (otp_code record) then
            (let n = attempts record + 1;
                 r1 = record\<lparr>attempts := n\<rparr>;
                 r2 = (if n \<ge> MAX_OTP_ATTEMPTS
                       then r1\<lparr>locked_until :=
                              Some (now + timedelta_minutes LOCK_DURATION_MINUTES)\<rparr>
                       else r1)
             in (Inl (HTTPException 400 ''Incorrect OTP''),
                 s\<lparr>otps := replace_row record r2 (otps s)\<rparr>))
          else
            (case find (\<lambda>u. u_email u = email) (users s) of
               None \<Rightarrow> (Inl (HTTPException 404 ''User does not exist''), s)
             | Some user \<Rightarrow>
                 (Inr \<lparr>message = ''Login successful'',
                       token = create_access_token now (SubUserId (u_id user)),
                       token_type = ''bearer''\<rparr>,
                  s\<lparr>otps := remove1 record (otps s)\<rparr>)))"

section \<open>The OTP functions of \<^verbatim>\<open>services.py\<close>\<close>

text \<open>
  \<^verbatim>\<open>services.py\<close> holds a second implementation of the OTP flow, which no route
  calls. It hands the \<^verbatim>\<open>str\<close> that \<^verbatim>\<open>generate_otp()\<close> returns to the column
  \<^verbatim>\<open>otp_code\<close> and compares the column with the submitted \<^verbatim>\<open>str\<close>. The column
  is a \<^verbatim>\<open>LargeBinary\<close>: it takes bytes and gives bytes. With the driver of
  \<^verbatim>\<open>core/db/session.py\<close> a \<^verbatim>\<open>str\<close> bound to it makes the commit raise
  (\<^verbatim>\<open>StatementError\<close>), and the bytes it returns never equal a \<^verbatim>\<open>str\<close>.
\<close>

datatype pyval = PyStr string | PyBytes string

definition LargeBinary_bind :: "pyval \<Rightarrow> error + string" where
  "LargeBinary_bind v = (case v of PyBytes b \<Rightarrow> Inr b | PyStr x \<Rightarrow> Inl StatementError)"

definition request_signup_otp ::
  "string \<Rightarrow> datetime \<Rightarrow> string \<Rightarrow> string \<Rightarrow> db \<Rightarrow> (error + unit) \<times> db" where
  "request_signup_otp otp now email full_name s =
     (case find (\<lambda>u. u_email u = email) (users s) of
        Some user \<Rightarrow> (Inl (HTTPException 400 ''User already exists''), s)
      | None \<Rightarrow>
          (case find (\<lambda>r. o_email r = email) (otps s) of
             Some record \<Rightarrow>
               if resend_count record \<ge> 3 then
                 (Inl (HTTPException 429 ''Maximum OTP resend limit reached''), s)
               else
                 (case LargeBinary_bind (PyStr otp) of
                    Inl e \<Rightarrow> (Inl e, s)
                  | Inr stored \<Rightarrow>
                      (let r' = record\<lparr>otp_code := stored, created_at := now,
                                   o_full_name := Some full_name,
                                   resend_count := resend_count record + 1\<rparr>
                       in (Inr (),
                           s\<lparr>otps := replace_row record r' (otps s),
                             outbox := outbox s @ [OtpMail email otp]\<rparr>)))
           | None \<Rightarrow>
               (case LargeBinary_bind (PyStr otp) of
                  Inl e \<Rightarrow> (Inl e, s)
                | Inr stored \<Rightarrow>
                    (let record = \<lparr>o_id = next_id (map o_id (otps s)), o_email = email,
                                     otp_code = stored, o_full_name = Some full_name,
                                     created_at = now, attempts = 0, resend_count = 1,
                                     locked_until = None\<rparr>
                     in (Inr (),
                         s\<lparr>otps := otps s @ [record],
                           outbox := outbox s @ [OtpMail email otp]\<rparr>)))))"

text \<open>
  \<^verbatim>\<open>verify_signup_otp\<close> compares the bytes of the column with the submitted
  \<^verbatim>\<open>str\<close>. Past that comparison it adds the user without looking for one: the
  commit would then meet the constraints of \<^verbatim>\<open>models/user.py\<close> (\<^verbatim>\<open>email\<close>
  unique, \<^verbatim>\<open>full_name\<close> not null) and raise \<^verbatim>\<open>IntegrityError\<close> where one
  fails.
\<close>

definition verify_signup_otp ::
  "datetime \<Rightarrow> string \<Rightarrow> string \<Rightarrow> db \<Rightarrow> (error + User) \<times> db" where
  "verify_signup_otp now email otp s =
     (case find (\<lambda>r. o_email r = email) (otps s) of
        None \<Rightarrow> (Inl (HTTPException 400 ''No OTP found. Please request a new one.''), s)
      | Some record \<Rightarrow>
          if is_locked now record then
            (Inl (HTTPException 403 ''Too many failed attempts. Try again later.''), s)
          else if now > created_at record + timedelta_minutes 5 then
            (Inl (HTTPException 400 ''OTP expired. Please request a new one.''),
             s\<lparr>otps := remove1 record (otps s)\<rparr>)
          else if PyBytes (otp_code record) \<noteq> PyStr otp then
            (let n = attempts record + 1;
                 r1 = record\<lparr>attempts := n\<rparr>;
                 r2 = (if n \<ge> 5
                       then r1\<lparr>locked_until := Some (now + timedelta_minutes 30)\<rparr>
                       else r1)
             in (Inl (HTTPException 400 ''Invalid OTP''),
                 s\<lparr>otps := replace_row record r2 (otps s)\<rparr>))
          else
            (case o_full_name record of
               None \<Rightarrow> (Inl IntegrityError, s)
             | Some name \<Rightarrow>
                 if find (\<lambda>u. u_email u = email) (users s) \<noteq> None then
                   (Inl IntegrityError, s)
                 else
                   (let user = \<lparr>u_id = next_id (map u_id (users s)), u_email = email,
                                 u_full_name = name, u_profile_image = None,
                                 u_onboarded = False\<rparr>
                    in (Inr user,
                        s\<lparr>users := users s @ [user],
                          otps := remove1 record (otps s)\<rparr>))))"

definition request_signin_otp ::
  "string \<Rightarrow> datetime \<Rightarrow> string \<Rightarrow> db \<Rightarrow> (error + unit) \<times> db" where
  "request_signin_otp otp now email s =
     (let provision =
        (case find (\<lambda>u. u_email u = email) (users s) of
           Some user \<Rightarrow> Inr s
         | None \<Rightarrow>
             (case find (\<lambda>c. c_user_email c = email) (collaborators s) of
                None \<Rightarrow> Inl (HTTPException 404 ''User not found or not invited'')
              | Some collaborator \<Rightarrow>
                  (let user = \<lparr>u_id = next_id (map u_id (users s)), u_email = email,
                                u_full_name = ''Invited User'', u_profile_image = None,
                                u_onboarded = True\<rparr>
                   in Inr (s\<lparr>users := users s @ [user],
                              collaborators :=
                                replace_row collaborator
                                  (collaborator\<lparr>c_user_id := Some (u_id user)\<rparr>)
                                  (collaborators s)\<rparr>))))
      in case provision of
           Inl e \<Rightarrow> (Inl e, s)
         | Inr s1 \<Rightarrow>
             (case find (\<lambda>r. o_email r = email) (otps s1) of
                Some otp_record \<Rightarrow>
                  if resend_count otp_record \<ge> 3 then
                    (Inl (HTTPException 429 ''Maximum OTP resend limit reached''), s1)
                  else
                    (case LargeBinary_bind (PyStr otp) of
                       Inl e \<Rightarrow> (Inl e, s1)
                     | Inr stored \<Rightarrow>
                         (Inr (),
                          s1\<lparr>otps := replace_row otp_record
                                         (otp_record\<lparr>otp_code := stored, created_at := now,
                                            resend_count := resend_count otp_record + 1\<rparr>)
                                         (otps s1),
                             outbox := outbox s1 @ [OtpMail email otp]\<rparr>))
              | None \<Rightarrow>
                  (case LargeBinary_bind (PyStr otp) of
                     Inl e \<Rightarrow> (Inl e, s1)
                   | Inr stored \<Rightarrow>
                       (Inr (),
                        s1\<lparr>otps := otps s1 @
                              [\<lparr>o_id = next_id (map o_id (otps s1)), o_email = email,
                                otp_code = stored, o_full_name = None,
                                created_at = now, attempts = 0, resend_count = 1,
                                locked_until = None\<rparr>],
                           outbox := outbox s1 @ [OtpMail email otp]\<rparr>))))"

section \<open>The feedback services of \<^verbatim>\<open>services.py\<close>\<close>

definition get_all_feedbacks_by_workspace ::
  "db \<Rightarrow> int \<Rightarrow> int option \<Rightarrow> error + Feedback list" where
  "get_all_feedbacks_by_workspace s workspace_id user_id =
     (case find (\<lambda>w. w_id w = workspace_id) (workspaces s) of
        None \<Rightarrow> Inl (HTTPException 404 ''Workspace not found'')
      | Some workspace \<Rightarrow>
          (let fbs = filter (\<lambda>f. f_workspace_id f = workspace_id) (feedbacks s)
           in case user_id of
                None \<Rightarrow> Inr fbs
              | Some uid \<Rightarrow>
                  if w_owner_id workspace \<noteq> uid then
                    (case find (\<lambda>c. c_workspace_id c = workspace_id \<and> c_user_id c = Some uid)
                            (collaborators s) of
                       None \<Rightarrow> Inl (HTTPException 403 ''No access to workspace'')
                     | Some collaborator \<Rightarrow>
                         (let accessible_feedback_ids =
                                map a_feedback_id
                                  (filter (\<lambda>a. a_user_id a = Some uid) (feedback_accesses s))
                          in Inr (filter (\<lambda>f. f_id f \<in> set accessible_feedback_ids) fbs)))
                  else Inr fbs))"

text \<open>
  \<^verbatim>\<open>FeedbackUpdate\<close>: a field the request leaves out is \<open>None\<close>
  (\<^verbatim>\<open>exclude_unset\<close> drops it), a field it sets is \<open>Some v\<close>, where \<open>v\<close> may be
  the null every field of the schema admits.
\<close>

record FeedbackUpdate =
  up_name :: "string option option"
  up_url :: "string option option"
  up_message :: "string option option"
  up_status :: "FeedbackStatus option option"
  up_voice_recording_url :: "string option option"
  up_screenshot_url :: "string option option"
  up_recording_url :: "string option option"

definition set_or_keep :: "'a option \<Rightarrow> 'a \<Rightarrow> 'a" where
  "set_or_keep v old = (case v of None \<Rightarrow> old | Some new \<Rightarrow> new)"

text \<open>
  The \<^verbatim>\<open>setattr\<close> loop and its commit: a null \<^verbatim>\<open>name\<close> breaks the column's
  \<^verbatim>\<open>nullable=False\<close>, the handler rolls back and answers 500.
\<close>

definition apply_update :: "FeedbackUpdate \<Rightarrow> Feedback \<Rightarrow> Feedback option" where
  "apply_update d f =
     (case up_name d of
        Some None \<Rightarrow> None
      | _ \<Rightarrow>
         Some (f\<lparr>f_name := (case up_name d of Some (Some n) \<Rightarrow> n | _ \<Rightarrow> f_name f),
                 f_url := set_or_keep (up_url d) (f_url f),
                 f_message := set_or_keep (up_message d) (f_message f),
                 f_status := set_or_keep (up_status d) (f_status f),
                 f_voice_recording_url :=
                   set_or_keep (up_voice_recording_url d) (f_voice_recording_url f),
                 f_screenshot_url := set_or_keep (up_screenshot_url d) (f_screenshot_url f),
                 f_recording_url := set_or_keep (up_recording_url d) (f_recording_url f)\<rparr>))"

definition update_feedback ::
  "int \<Rightarrow> FeedbackUpdate \<Rightarrow> int \<Rightarrow> db \<Rightarrow> (error + Feedback) \<times> db" where
  "update_feedback feedback_id d user_id s =
     (case find (\<lambda>f. f_id f = feedback_id) (feedbacks s) of
        None \<Rightarrow> (Inl (HTTPException 404 ''Feedback not found''), s)
      | Some feedback \<Rightarrow>
          (case find (\<lambda>w. w_id w = f_workspace_id feedback) (workspaces s) of
             None \<Rightarrow> (Inl (HTTPException 404 ''Workspace not found''), s)
           | Some workspace \<Rightarrow>
               if w_owner_id workspace \<noteq> user_id \<and>
                  find (\<lambda>c. c_workspace_id c = f_workspace_id feedback \<and>
                             c_user_id c = Some user_id) (collaborators s) = None
               then (Inl (HTTPException 403 ''No access to feedback''), s)
               else if f_status feedback = Some sent
               then (Inl (HTTPException 400 ''Cannot update sent feedback''), s)
               else
                 (case apply_update d feedback of
                    None \<Rightarrow> (Inl (HTTPException 500 ''Failed to update feedback''), s)
                  | Some f' \<Rightarrow>
                      (Inr f', s\<lparr>feedbacks := replace_row feedback f' (feedbacks s)\<rparr>))))"

text \<open>
  Deleting a feedback row takes with it the rows its relationships cascade to: its
  developer links, its access grants and the collaborators bound to it.
\<close>

definition delete_feedback :: "int \<Rightarrow> int \<Rightarrow> db \<Rightarrow> (error + string) \<times> db" where
  "delete_feedback feedback_id user_id s =
     (case find (\<lambda>f. f_id f = feedback_id) (feedbacks s) of
        None \<Rightarrow> (Inl (HTTPException 404 ''Feedback not found''), s)
      | Some feedback \<Rightarrow>
          if f_created_by feedback \<noteq> user_id
          then (Inl (HTTPException 403 ''Only creator can delete feedback''), s)
          else if f_status feedback = Some sent
          then (Inl (HTTPException 400 ''Cannot delete sent feedback''), s)
          else
            (Inr ''Feedback deleted successfully'',
             s\<lparr>feedbacks := remove1 feedback (feedbacks s),
               feedback_developers :=
                 filter (\<lambda>l. l_feedback_id l \<noteq> f_id feedback) (feedback_developers s),
               feedback_accesses :=
                 filter (\<lambda>a. a_feedback_id a \<noteq> f_id feedback) (feedback_accesses s),
               collaborators :=
                 filter (\<lambda>c. c_feedback_id c \<noteq> Some (f_id feedback)) (collaborators s)\<rparr>))"

text \<open>
  \<^verbatim>\<open>send_feedback_email\<close> issues a token for the developer's address and returns
  the link it mails; the link is modelled by its parts (the front end's host comes from
  the environment).
\<close>

record feedback_url =
  url_feedback_id :: int
  url_token :: access_token
  url_developer :: string

definition send_feedback_email :: "datetime \<Rightarrow> string \<Rightarrow> int \<Rightarrow> string \<Rightarrow> feedback_url" where
  "send_feedback_email now to_email feedback_id feedback_name =
     \<lparr>url_feedback_id = feedback_id,
      url_token = create_access_token now (SubEmail to_email),
      url_developer = to_email\<rparr>"

text \<open>
  One turn of the loop of \<^verbatim>\<open>share_feedback_with_developers\<close>, for the
  \<open>idx\<close>-th address: the loop carries the feedback object it mutates, the session
  and the list of links it has produced.
\<close>

definition share_step ::
  "datetime \<Rightarrow> nat \<Rightarrow> string \<Rightarrow> Feedback \<times> db \<times> (string \<times> feedback_url) list \<Rightarrow>
   Feedback \<times> db \<times> (string \<times> feedback_url) list" where
  "share_step now idx email st =
     (case st of (feedback, s, developer_urls) \<Rightarrow>
        (let (developer, s1) =
               (case find (\<lambda>d. d_email d = email) (developers s) of
                  None \<Rightarrow>
                    (let d = \<lparr>d_id = next_id (map d_id (developers s)), d_email = email,
                               d_workspace_id = None,
                               d_invited_by_workspace_id = Some (f_workspace_id feedback)\<rparr>
                     in (d, s\<lparr>developers := developers s @ [d]\<rparr>))
                | Some d \<Rightarrow>
                    if d_invited_by_workspace_id d = None then
                      (let d' = d\<lparr>d_invited_by_workspace_id := Some (f_workspace_id feedback)\<rparr>
                       in (d', s\<lparr>developers := replace_row d d' (developers s)\<rparr>))
                    else (d, s));
             (feedback', s2) =
               (if idx = 0 \<or> f_developer_email feedback = None then
                  (let f' = feedback\<lparr>f_developer_email := Some email\<rparr>
                   in (f', s1\<lparr>feedbacks := replace_row feedback f' (feedbacks s1)\<rparr>))
                else (feedback, s1));
             s3 =
               (case find (\<lambda>l. l_feedback_id l = f_id feedback' \<and>
                                l_developer_id l = d_id developer) (feedback_developers s2) of
                  None \<Rightarrow>
                    s2\<lparr>feedback_developers := feedback_developers s2 @
                         [\<lparr>l_id = next_id (map l_id (feedback_developers s2)),
                           l_feedback_id = f_id feedback',
                           l_developer_id = d_id developer,
                           l_status = pending, l_action_time = None\<rparr>]\<rparr>
                | Some link \<Rightarrow> s2);
             feedback_url = send_feedback_email now email (f_id feedback') (f_name feedback')
         in (feedback',
             s3\<lparr>outbox := outbox s3 @
                   [FeedbackMail email (f_id feedback') (f_name feedback')
                      (url_token feedback_url)]\<rparr>,
             developer_urls @ [(email, feedback_url)])))"

fun share_loop ::
  "datetime \<Rightarrow> nat \<Rightarrow> string list \<Rightarrow> Feedback \<times> db \<times> (string \<times> feedback_url) list \<Rightarrow>
   Feedback \<times> db \<times> (string \<times> feedback_url) list" where
  "share_loop now idx [] st = st"
| "share_loop now idx (email # emails) st =
     share_loop now (Suc idx) emails (share_step now idx email st)"

record share_response =
  sr_message :: string
  developer_feedback_urls :: "(string \<times> feedback_url) list"

definition share_feedback_with_developers ::
  "datetime \<Rightarrow> int \<Rightarrow> string list \<Rightarrow> int \<Rightarrow> db \<Rightarrow> (error + share_response) \<times> db" where
  "share_feedback_with_developers now feedback_id emails user_id s =
     (case find (\<lambda>f. f_id f = feedback_id) (feedbacks s) of
        None \<Rightarrow> (Inl (HTTPException 404 ''Feedback not found''), s)
      | Some feedback \<Rightarrow>
          if f_created_by feedback \<noteq> user_id
          then (Inl (HTTPException 403 ''Only creator can share feedback''), s)
          else
            (let f1 = feedback\<lparr>f_status := Some sent\<rparr>;
                 s1 = s\<lparr>feedbacks := replace_row feedback f1 (feedbacks s)\<rparr>
             in case share_loop now 0 emails (f1, s1, []) of
                  (f2, s2, developer_urls) \<Rightarrow>
                    (Inr \<lparr>sr_message = ''Feedback shared successfully'',
                          developer_feedback_urls = developer_urls\<rparr>, s2)))"

text \<open>
  \<^verbatim>\<open>FeedbackDeveloperStatus(action)\<close> looks the string up among the values of the
  enum and raises \<^verbatim>\<open>ValueError\<close> when it is none of them.
\<close>

definition FeedbackDeveloperStatus_of :: "string \<Rightarrow> FeedbackDeveloperStatus option" where
  "FeedbackDeveloperStatus_of action =
     (if action = ''pending'' then Some pending
      else if action = ''acknowledged'' then Some acknowledged
      else if action = ''unclear'' then Some unclear
      else None)"

text \<open>
  \<^verbatim>\<open>datetime.now(ist)\<close> for \<^verbatim>\<open>Asia/Kolkata\<close>: the wall clock five and a half
  hours ahead of UTC.
\<close>

definition now_ist :: "datetime \<Rightarrow> datetime" where
  "now_ist now = now + timedelta_minutes 330"

definition handle_developer_action ::
  "datetime \<Rightarrow> int \<Rightarrow> string \<Rightarrow> string \<Rightarrow> db \<Rightarrow> (error + string) \<times> db" where
  "handle_developer_action now feedback_id email action s =
     (case find (\<lambda>d. d_email d = email) (developers s) of
        None \<Rightarrow> (Inl (HTTPException 404 ''Developer not found''), s)
      | Some developer \<Rightarrow>
          (case find (\<lambda>l. l_feedback_id l = feedback_id \<and> l_developer_id l = d_id developer)
                  (feedback_developers s) of
             None \<Rightarrow> (Inl (HTTPException 404 ''Developer not linked to this feedback''), s)
           | Some link \<Rightarrow>
               (case FeedbackDeveloperStatus_of action of
                  None \<Rightarrow> (Inl (HTTPException 400 ''Invalid action''), s)
                | Some st \<Rightarrow>
                    (Inr (''Feedback marked as '' @ [CHR 0x27] @ action @ [CHR 0x27] @
                          '' by '' @ email),
                     s\<lparr>feedback_developers :=
                         replace_row link
                           (link\<lparr>l_status := st, l_action_time := Some (now_ist now)\<rparr>)
                           (feedback_developers s)\<rparr>))))"

section \<open>The feedback routes of \<^verbatim>\<open>routes.py\<close>\<close>

definition update_feedback_route ::
  "int \<Rightarrow> FeedbackUpdate \<Rightarrow> int \<Rightarrow> db \<Rightarrow> (error + Feedback) \<times> db" where
  "update_feedback_route feedback_id d current_user s =
     (case find (\<lambda>f. f_id f = feedback_id) (feedbacks s) of
        None \<Rightarrow> (Inl (HTTPException 404 ''Feedback not found''), s)
      | Some feedback \<Rightarrow>
          if f_created_by feedback \<noteq> current_user
          then (Inl (HTTPException 403 ''Not authorized to update this feedback''), s)
          else update_feedback feedback_id d current_user s)"

definition delete_feedback_route :: "int \<Rightarrow> int \<Rightarrow> db \<Rightarrow> (error + string) \<times> db" where
  "delete_feedback_route feedback_id current_user s =
     (case find (\<lambda>f. f_id f = feedback_id) (feedbacks s) of
        None \<Rightarrow> (Inl (HTTPException 404 ''Feedback not found''), s)
      | Some feedback \<Rightarrow>
          if f_created_by feedback \<noteq> current_user
          then (Inl (HTTPException 403 ''Not authorized to delete this feedback''), s)
          else delete_feedback feedback_id current_user s)"

definition share_feedback ::
  "datetime \<Rightarrow> int \<Rightarrow> string list \<Rightarrow> int \<Rightarrow> db \<Rightarrow> (error + share_response) \<times> db" where
  "share_feedback now feedback_id developer_emails current_user s =
     (case find (\<lambda>f. f_id f = feedback_id) (feedbacks s) of
        None \<Rightarrow> (Inl (HTTPException 404 ''Feedback not found''), s)
      | Some feedback \<Rightarrow>
          if f_created_by feedback \<noteq> current_user
          then (Inl (HTTPException 403 ''Not authorized to share this feedback''), s)
          else share_feedback_with_developers now feedback_id developer_emails current_user s)"

definition developer_action ::
  "datetime \<Rightarrow> int \<Rightarrow> string \<Rightarrow> string \<Rightarrow> db \<Rightarrow> (error + string) \<times> db" where
  "developer_action now feedback_id action developer_email s =
     handle_developer_action now feedback_id developer_email action s"

definition list_all_feedbacks_by_workspace :: "db \<Rightarrow> int \<Rightarrow> error + Feedback list" where
  "list_all_feedbacks_by_workspace s workspace_id =
     (if find (\<lambda>w. w_id w = workspace_id) (workspaces s) = None
      then Inl (HTTPException 404 ''Workspace not found'')
      else get_all_feedbacks_by_workspace s workspace_id None)"

section \<open>Notions the properties are stated with\<close>

text \<open>A handler succeeds when it returns instead of raising.\<close>

definition succeeded :: "('e + 'a) \<times> 's \<Rightarrow> bool" where
  "succeeded res = (case fst res of Inl e \<Rightarrow> False | Inr v \<Rightarrow> True)"

text \<open>
  The two verify routes work on the same OTP row; a run of verify requests is a list of
  the route, the instant and the code of each.
\<close>

datatype flow = Signup | Signin







section \<open>Example data\<close>

text \<open>
  A stand-in for \<^verbatim>\<open>bcrypt\<close> with a four-character salt, and small databases, to
  run the handlers on concrete requests.
\<close>

definition toy_hashpw :: "string \<Rightarrow> string \<Rightarrow> string" where
  "toy_hashpw password salt = salt @ password"

definition toy_checkpw :: "string \<Rightarrow> string \<Rightarrow> bool" where
  "toy_checkpw password hashed = (drop 4 hashed = password)"

definition db_empty :: db where
  "db_empty = \<lparr>users = [], otps = [], collaborators = [], workspaces = [], feedbacks = [],
                feedback_accesses = [], developers = [], feedback_developers = [],
                outbox = []\<rparr>"

definition ann_record :: OTP_Tbl where
  "ann_record = \<lparr>o_id = 1, o_email = ''ann@x.io'', otp_code = toy_hashpw ''482913'' ''salt'',
                  o_full_name = Some ''Ann'', created_at = 0, attempts = 0,
                  resend_count = 1, locked_until = None\<rparr>"

definition ann_user :: User where
  "ann_user = \<lparr>u_id = 1, u_email = ''ann@x.io'', u_full_name = ''Ann'',
                u_profile_image = None, u_onboarded = False\<rparr>"

text \<open>Ann has asked to sign up and has no account yet.\<close>

definition db_pending :: db where
  "db_pending = db_empty\<lparr>otps := [ann_record]\<rparr>"

text \<open>Her row after a fifth wrong code in minute two: locked until minute thirty-two.\<close>

definition db_locked :: db where
  "db_locked = db_empty\<lparr>otps := [ann_record\<lparr>attempts := 5,
                  locked_until := Some (timedelta_minutes 32)\<rparr>]\<rparr>"

text \<open>
  Three signup requests for Ann's address in minutes zero to two, and three signin
  requests of Ann as a holder of an account.
\<close>

definition signup_thrice :: db where
  "signup_thrice =
     snd (signup_request toy_hashpw ''333333'' ''salt'' (timedelta_minutes 2) ''ann@x.io'' ''Ann''
       (snd (signup_request toy_hashpw ''222222'' ''salt'' (timedelta_minutes 1) ''ann@x.io''
               ''Ann''
          (snd (signup_request toy_hashpw ''111111'' ''salt'' 0 ''ann@x.io'' ''Ann''
                  db_empty)))))"

definition signin_thrice :: db where
  "signin_thrice =
     snd (signin_request toy_hashpw ''333333'' ''salt'' (timedelta_minutes 2) ''ann@x.io''
       (snd (signin_request toy_hashpw ''222222'' ''salt'' (timedelta_minutes 1) ''ann@x.io''
          (snd (signin_request toy_hashpw ''111111'' ''salt'' 0 ''ann@x.io''
                  (db_empty\<lparr>users := [ann_user]\<rparr>))))))"

text \<open>Ann holds an account and a pending code.\<close>

definition db_member :: db where
  "db_member = db_empty\<lparr>users := [ann_user], otps := [ann_record]\<rparr>"


definition bob_user :: User where
  "bob_user = \<lparr>u_id = 2, u_email = ''bob@x.io'', u_full_name = ''Bob'',
                u_profile_image = None, u_onboarded = True\<rparr>"

text \<open>
  Workspace 1 of user 1 holds two feedbacks of hers, the second one sent; developer 1
  has acknowledged it. User 2 has no part in the workspace.
\<close>

definition acme :: Workspace where
  "acme = \<lparr>w_id = 1, w_name = ''Acme'', w_subdomain = ''acme.feedback.com'',
           w_type = ''Company'', w_purpose = ''Work'', w_role = ''Engineer'',
           w_icon_url = None, w_invite_emails = None, w_owner_id = 1\<rparr>"

definition fb_draft :: Feedback where
  "fb_draft = \<lparr>f_id = 1, f_name = ''Login fails'', f_created_by = 1, f_status = Some draft,
               f_url = None, f_screenshot_url = None, f_recording_url = None,
               f_voice_recording_url = None, f_message = None, f_created_at = 0,
               f_developer_email = None, f_workspace_id = 1\<rparr>"

definition fb_sent :: Feedback where
  "fb_sent = \<lparr>f_id = 2, f_name = ''Logo blurry'', f_created_by = 1, f_status = Some sent,
              f_url = None, f_screenshot_url = None, f_recording_url = None,
              f_voice_recording_url = None, f_message = None, f_created_at = 0,
              f_developer_email = Some ''dev@x.io'', f_workspace_id = 1\<rparr>"

definition dev1 :: Developer where
  "dev1 = \<lparr>d_id = 1, d_email = ''dev@x.io'', d_workspace_id = None,
           d_invited_by_workspace_id = Some 1\<rparr>"

definition link1 :: FeedbackDeveloper where
  "link1 = \<lparr>l_id = 1, l_feedback_id = 2, l_developer_id = 1, l_status = acknowledged,
            l_action_time = Some (now_ist 0)\<rparr>"

definition db_acme :: db where
  "db_acme = db_empty\<lparr>users := [ann_user\<lparr>u_onboarded := True\<rparr>, bob_user],
               workspaces := [acme],
               feedbacks := [fb_draft, fb_sent], developers := [dev1],
               feedback_developers := [link1]\<rparr>"

definition update_none :: FeedbackUpdate where
  "update_none = \<lparr>up_name = None, up_url = None, up_message = None, up_status = None,
                   up_voice_recording_url = None, up_screenshot_url = None,
                   up_recording_url = None\<rparr>"

section \<open>Rows and queries\<close>

lemma find_Some_holds: "find P xs = Some r \<Longrightarrow> P r"
  by (induction xs) (auto split: if_splits)

lemma find_replace_row:
  "find P xs = Some r \<Longrightarrow> P r' \<Longrightarrow> find P (replace_row r r' xs) = Some r'"
  by (induction xs) (auto split: if_splits)



lemma find_append_missing: "find P xs = None \<Longrightarrow> find P (xs @ ys) = find P ys"
  by (induction xs) (auto split: if_splits)

lemma find_append_new:
  "find P (filter (\<lambda>x. \<not> P x) xs @ [n]) = (if P n then Some n else None)"
  by (induction xs) auto

lemma filter_kept_new:
  "P n \<Longrightarrow> filter P (filter (\<lambda>x. \<not> P x) xs @ [n]) = [n]"
  by (induction xs) auto

section \<open>The verify routes, branch by branch\<close>

lemma signup_verify_no_record:
  "find (\<lambda>r. o_email r = email) (otps s) = None \<Longrightarrow>
   signup_verify chk now email otp s =
     (Inl (HTTPException 400 ''No OTP request found for this email''), s)"
  by (simp add: signup_verify_def)

lemma signin_verify_no_record:
  "find (\<lambda>r. o_email r = email) (otps s) = None \<Longrightarrow>
   signin_verify chk now email otp s =
     (Inl (HTTPException 400 ''No OTP request found for this email''), s)"
  by (simp add: signin_verify_def)

lemma signup_verify_locked:
  "find (\<lambda>r. o_email r = email) (otps s) = Some r \<Longrightarrow> is_locked now r \<Longrightarrow>
   signup_verify chk now email otp s =
     (Inl (HTTPException 403 ''Too many incorrect attempts. Try again later.''), s)"
  by (simp add: signup_verify_def)

lemma signin_verify_locked:
  "find (\<lambda>r. o_email r = email) (otps s) = Some r \<Longrightarrow> is_locked now r \<Longrightarrow>
   signin_verify chk now email otp s =
     (Inl (HTTPException 403 ''Too many incorrect attempts. Try again later.''), s)"
  by (simp add: signin_verify_def)


lemma signup_verify_expired:
  "find (\<lambda>r. o_email r = email) (otps s) = Some r \<Longrightarrow> \<not> is_locked now r \<Longrightarrow>
   now > created_at r + timedelta_minutes OTP_VALIDITY_MINUTES \<Longrightarrow>
   signup_verify chk now email otp s =
     (Inl (HTTPException 400 ''OTP has expired. Please request again.''),
      s\<lparr>otps := remove1 r (otps s)\<rparr>)"
  by (simp add: signup_verify_def)

lemma signin_verify_expired:
  "find (\<lambda>r. o_email r = email) (otps s) = Some r \<Longrightarrow> \<not> is_locked now r \<Longrightarrow>
   now > created_at r + timedelta_minutes OTP_VALIDITY_MINUTES \<Longrightarrow>
   signin_verify chk now email otp s =
     (Inl (HTTPException 400 ''OTP has expired''), s\<lparr>otps := remove1 r (otps s)\<rparr>)"
  by (simp add: signin_verify_def)



lemma signup_verify_succeeded_iff:
  "find (\<lambda>r. o_email r = email) (otps s) = Some r \<Longrightarrow>
   succeeded (signup_verify chk now email otp s) \<longleftrightarrow>
     chk otp (otp_code r) \<and> now \<le> created_at r + timedelta_minutes OTP_VALIDITY_MINUTES \<and>
     \<not> is_locked now r \<and>
     (find (\<lambda>u. u_email u = email) (users s) \<noteq> None \<or> o_full_name r \<noteq> None)"
  by (auto simp: signup_verify_def succeeded_def Let_def split: option.splits)

lemma signin_verify_succeeded_iff:
  "find (\<lambda>r. o_email r = email) (otps s) = Some r \<Longrightarrow>
   succeeded (signin_verify chk now email otp s) \<longleftrightarrow>
     chk otp (otp_code r) \<and> now \<le> created_at r + timedelta_minutes OTP_VALIDITY_MINUTES \<and>
     \<not> is_locked now r \<and> find (\<lambda>u. u_email u = email) (users s) \<noteq> None"
  by (auto simp: signin_verify_def succeeded_def Let_def split: option.splits)

lemmas example_defs =
  db_empty_def db_pending_def db_locked_def db_member_def
  ann_record_def ann_user_def toy_hashpw_def toy_checkpw_def timedelta_minutes_def
  OTP_VALIDITY_MINUTES_def LOCK_DURATION_MINUTES_def MAX_OTP_ATTEMPTS_def
  MAX_OTP_RESEND_def is_locked_def

section \<open>When a verify request succeeds\<close>

text \<open>
  Claim C1, as the code has it. With no OTP row for the address both verify routes
  answer 400 "No OTP request found for this email" and change nothing. With a row \<open>r\<close>:
  the signup route succeeds exactly when the code passes \<^verbatim>\<open>checkpw\<close> against the
  stored hash, the instant is at most five minutes after \<open>created_at\<close>, the row is not
  locked, and a user of that address exists or the row carries the name to create one
  with; the signin route succeeds exactly when the same three conditions hold and a user
  of that address exists. A locked row answers 403 and is kept, whatever its age; a row
  that is not locked and older than five minutes answers "expired" and is deleted.
\<close>

theorem otp_verify_outcome:
  "(find (\<lambda>r. o_email r = email) (otps s) = None \<longrightarrow>
      signup_verify chk now email otp s =
        (Inl (HTTPException 400 ''No OTP request found for this email''), s) \<and>
      signin_verify chk now email otp s =
        (Inl (HTTPException 400 ''No OTP request found for this email''), s)) \<and>
   (\<forall>r. find (\<lambda>r. o_email r = email) (otps s) = Some r \<longrightarrow>
      (succeeded (signup_verify chk now email otp s) \<longleftrightarrow>
         chk otp (otp_code r) \<and>
         now \<le> created_at r + timedelta_minutes OTP_VALIDITY_MINUTES \<and>
         \<not> is_locked now r \<and>
         (find (\<lambda>u. u_email u = email) (users s) \<noteq> None \<or> o_full_name r \<noteq> None)) \<and>
      (succeeded (signin_verify chk now email otp s) \<longleftrightarrow>
         chk otp (otp_code r) \<and>
         now \<le> created_at r + timedelta_minutes OTP_VALIDITY_MINUTES \<and>
         \<not> is_locked now r \<and>
         find (\<lambda>u. u_email u = email) (users s) \<noteq> None) \<and>
      (is_locked now r \<longrightarrow>
         signup_verify chk now email otp s =
           (Inl (HTTPException 403 ''Too many incorrect attempts. Try again later.''), s) \<and>
         signin_verify chk now email otp s =
           (Inl (HTTPException 403 ''Too many incorrect attempts. Try again later.''), s)) \<and>
      (\<not> is_locked now r \<and>
       now > created_at r + timedelta_minutes OTP_VALIDITY_MINUTES \<longrightarrow>
         signup_verify chk now email otp s =
           (Inl (HTTPException 400 ''OTP has expired. Please request again.''),
            s\<lparr>otps := remove1 r (otps s)\<rparr>) \<and>
         signin_verify chk now email otp s =
           (Inl (HTTPException 400 ''OTP has expired''),
            s\<lparr>otps := remove1 r (otps s)\<rparr>)))"
proof (intro conjI impI allI)
  fix r assume r: "find (\<lambda>r. o_email r = email) (otps s) = Some r"
  show "succeeded (signup_verify chk now email otp s) \<longleftrightarrow>
         chk otp (otp_code r) \<and>
         now \<le> created_at r + timedelta_minutes OTP_VALIDITY_MINUTES \<and>
         \<not> is_locked now r \<and>
         (find (\<lambda>u. u_email u = email) (users s) \<noteq> None \<or> o_full_name r \<noteq> None)"
    using r by (rule signup_verify_succeeded_iff)
  show "succeeded (signin_verify chk now email otp s) \<longleftrightarrow>
         chk otp (otp_code r) \<and>
         now \<le> created_at r + timedelta_minutes OTP_VALIDITY_MINUTES \<and>
         \<not> is_locked now r \<and>
         find (\<lambda>u. u_email u = email) (users s) \<noteq> None"
    using r by (rule signin_verify_succeeded_iff)
qed (simp_all add: signup_verify_no_record signin_verify_no_record signup_verify_locked
      signin_verify_locked signup_verify_expired signin_verify_expired)

text \<open>
  The theorem at work: Ann, who holds an account, signs in with her code in minute one;
  a verify request for an address without a row is turned away; her row, six minutes
  old and not locked, is reported expired and deleted.
\<close>

theorem otp_verify_outcome_witness:
  "succeeded (signin_verify toy_checkpw (timedelta_minutes 1) ''ann@x.io'' ''482913'' db_member) \<and>
   signup_verify toy_checkpw 0 ''bob@x.io'' ''482913'' db_member =
     (Inl (HTTPException 400 ''No OTP request found for this email''), db_member) \<and>
   signup_verify toy_checkpw (timedelta_minutes 6) ''ann@x.io'' ''482913'' db_pending =
     (Inl (HTTPException 400 ''OTP has expired. Please request again.''),
      db_pending\<lparr>otps := []\<rparr>)"
proof -
  have m: "find (\<lambda>r. o_email r = ''ann@x.io'') (otps db_member) = Some ann_record"
    by (simp add: example_defs)
  have p: "find (\<lambda>r. o_email r = ''ann@x.io'') (otps db_pending) = Some ann_record"
    by (simp add: example_defs)
  have b: "find (\<lambda>r. o_email r = ''bob@x.io'') (otps db_member) = None"
    by (simp add: example_defs)
  have "succeeded (signin_verify toy_checkpw (timedelta_minutes 1) ''ann@x.io'' ''482913''
          db_member)"
    using otp_verify_outcome[of "''ann@x.io''" db_member toy_checkpw "timedelta_minutes 1"
        "''482913''"] m
    by (simp add: example_defs)
  moreover have "signup_verify toy_checkpw 0 ''bob@x.io'' ''482913'' db_member =
     (Inl (HTTPException 400 ''No OTP request found for this email''), db_member)"
    using otp_verify_outcome[of "''bob@x.io''" db_member toy_checkpw 0 "''482913''"] b
    by simp
  moreover have "signup_verify toy_checkpw (timedelta_minutes 6) ''ann@x.io'' ''482913''
       db_pending =
     (Inl (HTTPException 400 ''OTP has expired. Please request again.''),
      db_pending\<lparr>otps := []\<rparr>)"
    using otp_verify_outcome[of "''ann@x.io''" db_pending toy_checkpw "timedelta_minutes 6"
        "''482913''"] p
    by (simp add: example_defs)
  ultimately show ?thesis by simp
qed

text \<open>
  Where the claim as worded fails. Ann has asked to sign up and has no account: her
  right code, in time and with no lock, is refused by the signin route with 404. And
  her locked row, ten minutes old, is answered "locked", not "expired", and stays in
  the table.
\<close>

theorem otp_verify_counterexample:
  "find (\<lambda>r. o_email r = ''ann@x.io'') (otps db_pending) = Some ann_record \<and>
   toy_checkpw ''482913'' (otp_code ann_record) \<and>
   timedelta_minutes 1 \<le> created_at ann_record + timedelta_minutes OTP_VALIDITY_MINUTES \<and>
   \<not> is_locked (timedelta_minutes 1) ann_record \<and>
   signin_verify toy_checkpw (timedelta_minutes 1) ''ann@x.io'' ''482913'' db_pending =
     (Inl (HTTPException 404 ''User does not exist''), db_pending) \<and>
   signup_verify toy_checkpw (timedelta_minutes 10) ''ann@x.io'' ''482913'' db_locked =
     (Inl (HTTPException 403 ''Too many incorrect attempts. Try again later.''), db_locked)"
  by (simp add: signin_verify_def signup_verify_def example_defs)

section \<open>Five wrong codes\<close>








section \<open>The signup request starts afresh\<close>

text \<open>
  Claim C9. A signup request that succeeds leaves, for its address, exactly one OTP
  row: every earlier row of the address is deleted and a new one is added, holding the
  hash of the new code, the instant of the request, \<open>attempts = 0\<close>,
  \<open>resend_count = 1\<close> and no \<open>locked_until\<close>. A lock or an exhausted resend counter
  of the earlier row is gone with it.
\<close>

theorem signup_request_fresh_record:
  assumes "signup_request hashpw otp salt now email full_name s = (Inr m, s')"
  shows "\<exists>new. otps s' = filter (\<lambda>r. o_email r \<noteq> email) (otps s) @ [new] \<and>
           filter (\<lambda>r. o_email r = email) (otps s') = [new] \<and>
           find (\<lambda>r. o_email r = email) (otps s') = Some new \<and>
           o_email new = email \<and> otp_code new = hashpw otp salt \<and>
           o_full_name new = Some full_name \<and> created_at new = now \<and>
           attempts new = 0 \<and> resend_count new = 1 \<and> locked_until new = None"
  using assms
  by (auto simp: signup_request_def Let_def find_append_new filter_kept_new
      split: option.splits)

text \<open>
  The theorem at work: Ann's row is locked after five wrong codes; her signup request of
  minute three succeeds and leaves one row, unlocked and counting anew.
\<close>

theorem signup_request_fresh_record_witness:
  "signup_request toy_hashpw ''135790'' ''pepr'' (timedelta_minutes 3) ''ann@x.io'' ''Ann''
     db_locked =
     (Inr ''OTP sent to your email'',
      snd (signup_request toy_hashpw ''135790'' ''pepr'' (timedelta_minutes 3) ''ann@x.io''
             ''Ann'' db_locked)) \<and>
   (\<exists>new. filter (\<lambda>r. o_email r = ''ann@x.io'')
            (otps (snd (signup_request toy_hashpw ''135790'' ''pepr'' (timedelta_minutes 3)
                          ''ann@x.io'' ''Ann'' db_locked))) = [new] \<and>
          attempts new = 0 \<and> resend_count new = 1 \<and> locked_until new = None)"
proof -
  let ?res = "signup_request toy_hashpw ''135790'' ''pepr'' (timedelta_minutes 3) ''ann@x.io''
             ''Ann'' db_locked"
  have ok: "?res = (Inr ''OTP sent to your email'', snd ?res)"
    by (simp add: signup_request_def Let_def example_defs)
  from signup_request_fresh_record[OF ok] ok show ?thesis by blast
qed

section \<open>The resend limit\<close>

lemma signin_request_limit:
  assumes "find (\<lambda>u. u_email u = email) (users s) = Some u"
    and "find (\<lambda>r. o_email r = email) (otps s) = Some r"
    and "resend_count r \<ge> MAX_OTP_RESEND"
  shows "signin_request hashpw otp salt now email s =
           (Inl (HTTPException 429 ''OTP resend limit reached.''), s)"
  using assms by (simp add: signin_request_def Let_def)

lemma signup_request_only_failure:
  "signup_request hashpw otp salt now email full_name s = (Inl e, s') \<Longrightarrow>
   e = HTTPException 400 ''User already exists'' \<and> s' = s"
  by (auto simp: signup_request_def Let_def split: option.splits)

text \<open>
  Claim C3 on the code. Four signup requests for Ann's address, with no verify in
  between: the fourth, in minute three, is not turned away. The route
  \<^verbatim>\<open>signup_request\<close> never reads the resend counter; it deletes the row and sends a
  fresh code, the count back at one. The signin route does count: Ann's fourth signin
  request meets \<open>resend_count = 3\<close> and is answered 429.
\<close>

theorem fourth_signup_request_succeeds:
  "signup_request toy_hashpw ''444444'' ''salt'' (timedelta_minutes 3) ''ann@x.io'' ''Ann''
     signup_thrice =
     (Inr ''OTP sent to your email'',
      db_empty\<lparr>otps := [\<lparr>o_id = 1, o_email = ''ann@x.io'', otp_code = ''salt444444'',
                          o_full_name = Some ''Ann'', created_at = timedelta_minutes 3,
                          attempts = 0, resend_count = 1, locked_until = None\<rparr>],
               outbox := [OtpMail ''ann@x.io'' ''111111'', OtpMail ''ann@x.io'' ''222222'',
                          OtpMail ''ann@x.io'' ''333333'', OtpMail ''ann@x.io'' ''444444'']\<rparr>) \<and>
   map resend_count (otps signin_thrice) = [3] \<and>
   signin_request toy_hashpw ''444444'' ''salt'' (timedelta_minutes 3) ''ann@x.io''
     signin_thrice =
     (Inl (HTTPException 429 ''OTP resend limit reached.''), signin_thrice)"
  by (simp add: signup_thrice_def signin_thrice_def signup_request_def signin_request_def
      Let_def next_id_def example_defs)

section \<open>What the OTP column holds\<close>

lemma find_otp_replace_row:
  assumes "find (\<lambda>r. o_email r = e) xs = Some r" and "o_email r' = o_email r"
  shows "find (\<lambda>r. o_email r = e) (replace_row r r' xs) = Some r'"
proof -
  have "o_email r = e" using assms(1) by (rule find_Some_holds[where P="\<lambda>r. o_email r = e"])
  with assms show ?thesis by (simp add: find_replace_row)
qed

lemma signin_request_stores_hash:
  assumes "signin_request hashpw otp salt now email s = (Inr m, s')"
  shows "\<exists>r. find (\<lambda>r. o_email r = email) (otps s') = Some r \<and>
           otp_code r = hashpw otp salt"
  using assms
  by (auto simp: signin_request_def Let_def find_otp_replace_row find_append_missing
      split: option.splits if_splits)

lemma request_signup_otp_writes_nothing:
  "request_signup_otp otp now email full_name s = (res, s') \<Longrightarrow>
   otps s' = otps s \<and> outbox s' = outbox s \<and> (\<exists>e. res = Inl e)"
  by (auto simp: request_signup_otp_def LargeBinary_bind_def split: option.splits if_splits)

lemma request_signin_otp_writes_nothing:
  "request_signin_otp otp now email s = (res, s') \<Longrightarrow>
   otps s' = otps s \<and> outbox s' = outbox s \<and> (\<exists>e. res = Inl e)"
  by (auto simp: request_signin_otp_def LargeBinary_bind_def Let_def
      split: option.splits if_splits)

lemma signin_request_writes_hash:
  assumes "signin_request hashpw otp salt now email s = (Inr m, s')"
  shows "\<exists>r. find (\<lambda>r. o_email r = email) (otps s') = Some r \<and>
           otp_code r = hashpw otp salt \<and>
           (case find (\<lambda>r. o_email r = email) (otps s) of
              None \<Rightarrow> otps s' = otps s @ [r]
            | Some old \<Rightarrow> otps s' = replace_row old r (otps s))"
  using assms
  by (auto simp: signin_request_def Let_def find_otp_replace_row find_append_missing
      split: option.splits if_splits)

lemma signin_request_failure_keeps_otps:
  "signin_request hashpw otp salt now email s = (Inl e, s') \<Longrightarrow> otps s' = otps s"
  by (auto simp: signin_request_def Let_def split: option.splits if_splits)

text \<open>
  Claim C4. Whatever a request for a code writes into \<^verbatim>\<open>otp_code\<close> is
  \<^verbatim>\<open>hashpw\<close> of the code it drew with the salt it drew. The signup route leaves the
  other addresses' rows and one new row holding that hash; the signin route puts that
  hash into the row of the address, or adds a row holding it, and changes no other row;
  a request of either route that fails leaves the table as it was. The request
  functions of \<^verbatim>\<open>services.py\<close> never write the table: the \<^verbatim>\<open>str\<close> they hand
  to the binary column makes their commit raise. So the field holds the code itself
  only if \<^verbatim>\<open>hashpw\<close> returned the code it was given.
\<close>

theorem otp_requests_store_only_hash:
  "(\<forall>m s'. signup_request hashpw otp salt now email full_name s = (Inr m, s') \<longrightarrow>
      (\<exists>new. otps s' = filter (\<lambda>r. o_email r \<noteq> email) (otps s) @ [new] \<and>
             otp_code new = hashpw otp salt \<and>
             (hashpw otp salt \<noteq> otp \<longrightarrow> otp_code new \<noteq> otp))) \<and>
   (\<forall>m s'. signin_request hashpw otp salt now email s = (Inr m, s') \<longrightarrow>
      (\<exists>r. find (\<lambda>r. o_email r = email) (otps s') = Some r \<and>
           otp_code r = hashpw otp salt \<and>
           (hashpw otp salt \<noteq> otp \<longrightarrow> otp_code r \<noteq> otp) \<and>
           (case find (\<lambda>r. o_email r = email) (otps s) of
              None \<Rightarrow> otps s' = otps s @ [r]
            | Some old \<Rightarrow> otps s' = replace_row old r (otps s)))) \<and>
   (\<forall>e s'. signup_request hashpw otp salt now email full_name s = (Inl e, s') \<longrightarrow>
      otps s' = otps s) \<and>
   (\<forall>e s'. signin_request hashpw otp salt now email s = (Inl e, s') \<longrightarrow>
      otps s' = otps s) \<and>
   (\<forall>res s'. request_signup_otp otp now email full_name s = (res, s') \<longrightarrow>
      otps s' = otps s) \<and>
   (\<forall>res s'. request_signin_otp otp now email s = (res, s') \<longrightarrow>
      otps s' = otps s)"
proof (intro conjI allI impI)
  fix m s' assume "signup_request hashpw otp salt now email full_name s = (Inr m, s')"
  then show "\<exists>new. otps s' = filter (\<lambda>r. o_email r \<noteq> email) (otps s) @ [new] \<and>
             otp_code new = hashpw otp salt \<and>
             (hashpw otp salt \<noteq> otp \<longrightarrow> otp_code new \<noteq> otp)"
    by (auto simp: signup_request_def Let_def split: option.splits)
next
  fix m s' assume "signin_request hashpw otp salt now email s = (Inr m, s')"
  from signin_request_writes_hash[OF this]
  show "\<exists>r. find (\<lambda>r. o_email r = email) (otps s') = Some r \<and>
           otp_code r = hashpw otp salt \<and>
           (hashpw otp salt \<noteq> otp \<longrightarrow> otp_code r \<noteq> otp) \<and>
           (case find (\<lambda>r. o_email r = email) (otps s) of
              None \<Rightarrow> otps s' = otps s @ [r]
            | Some old \<Rightarrow> otps s' = replace_row old r (otps s))"
    by auto
next
  fix e s' assume "signup_request hashpw otp salt now email full_name s = (Inl e, s')"
  then show "otps s' = otps s" using signup_request_only_failure by blast
next
  fix e s' assume "signin_request hashpw otp salt now email s = (Inl e, s')"
  then show "otps s' = otps s" by (rule signin_request_failure_keeps_otps)
next
  fix res s' assume "request_signup_otp otp now email full_name s = (res, s')"
  then show "otps s' = otps s" using request_signup_otp_writes_nothing by blast
next
  fix res s' assume "request_signin_otp otp now email s = (res, s')"
  then show "otps s' = otps s" using request_signin_otp_writes_nothing by blast
qed

text \<open>
  The theorem at work: Ann's first signup request, with the code 482913 and the salt
  "salt", leaves one row, which holds "salt482913" and not the code; the request of
  \<^verbatim>\<open>services.py\<close> for the same code leaves the table empty.
\<close>

theorem otp_requests_store_only_hash_witness:
  "map otp_code
     (otps (snd (signup_request toy_hashpw ''482913'' ''salt'' 0 ''ann@x.io'' ''Ann'' db_empty)))
     = [''salt482913''] \<and>
   ''salt482913'' \<noteq> ''482913'' \<and>
   otps (snd (request_signup_otp ''482913'' 0 ''ann@x.io'' ''Ann'' db_empty)) = []"
proof -
  let ?r = "signup_request toy_hashpw ''482913'' ''salt'' 0 ''ann@x.io'' ''Ann'' db_empty"
  let ?q = "request_signup_otp ''482913'' 0 ''ann@x.io'' ''Ann'' db_empty"
  note inst = otp_requests_store_only_hash[of toy_hashpw "''482913''" "''salt''" 0
      "''ann@x.io''" "''Ann''" db_empty]
  have ok: "?r = (Inr ''OTP sent to your email'', snd ?r)"
    by (simp add: signup_request_def Let_def example_defs)
  have q: "?q = (fst ?q, snd ?q)" by simp
  from inst ok obtain new where
    new: "otps (snd ?r) = filter (\<lambda>r. o_email r \<noteq> ''ann@x.io'') (otps db_empty) @ [new]"
      "otp_code new = toy_hashpw ''482913'' ''salt''"
    by blast
  then have "map otp_code (otps (snd ?r)) = [''salt482913'']"
    by (simp add: example_defs)
  moreover from inst q have "otps (snd ?q) = otps db_empty" by blast
  then have "otps (snd ?q) = []" by (simp add: db_empty_def)
  ultimately show ?thesis by simp
qed

section \<open>Signing up twice\<close>

text \<open>
  The route: a signup verify that succeeds for an address that has a user deletes the
  OTP row, leaves the users as they are and issues the token of that user.
\<close>

lemma signup_verify_existing_user:
  assumes "find (\<lambda>r. o_email r = email) (otps s) = Some r"
    and "find (\<lambda>u. u_email u = email) (users s) = Some u"
    and "succeeded (signup_verify chk now email otp s)"
  shows "signup_verify chk now email otp s =
           (Inr \<lparr>message = ''User already registered'',
                 token = create_access_token now (SubUserId (u_id u)),
                 token_type = ''bearer''\<rparr>,
            s\<lparr>otps := remove1 r (otps s)\<rparr>)"
  using assms
  by (auto simp: signup_verify_def succeeded_def Let_def split: if_splits)

lemma signup_verify_users:
  "users (snd (signup_verify chk now email otp s)) = users s \<or>
   (find (\<lambda>u. u_email u = email) (users s) = None \<and>
    (\<exists>new. u_email new = email \<and>
           users (snd (signup_verify chk now email otp s)) = users s @ [new]))"
  by (auto simp: signup_verify_def Let_def split: option.splits)

lemma signin_request_users:
  "users (snd (signin_request hashpw otp salt now email s)) = users s \<or>
   (find (\<lambda>u. u_email u = email) (users s) = None \<and>
    (\<exists>new. u_email new = email \<and>
           users (snd (signin_request hashpw otp salt now email s)) = users s @ [new]))"
  by (auto simp: signin_request_def Let_def split: option.splits)

lemma distinct_emails_append:
  assumes "distinct (map u_email us)" and "find (\<lambda>u. u_email u = email) us = None"
    and "u_email new = email"
  shows "distinct (map u_email (us @ [new]))"
  using assms by (auto simp: find_None_iff)

lemma verify_signup_otp_users:
  "users (snd (verify_signup_otp now email otp s)) = users s"
  by (simp add: verify_signup_otp_def Let_def split: option.splits)

text \<open>
  Claim C5. When a signup verify succeeds for an address that has a user, the route
  answers "User already registered" with a token whose subject is that user's id,
  deletes the OTP row and leaves the users as they are. No verify or request adds a
  second user of an address: the signup verify and the signin request keep the e-mail
  addresses of the users distinct, and \<^verbatim>\<open>verify_signup_otp\<close> of
  \<^verbatim>\<open>services.py\<close>, which would add a user without looking for one, never gets past
  its comparison of the column's bytes with the submitted \<^verbatim>\<open>str\<close> and leaves the
  users as they are.
\<close>

theorem signup_verify_no_duplicate_user:
  "(\<forall>r u. find (\<lambda>r. o_email r = email) (otps s) = Some r \<and>
          find (\<lambda>u. u_email u = email) (users s) = Some u \<and>
          succeeded (signup_verify chk now email otp s) \<longrightarrow>
      signup_verify chk now email otp s =
        (Inr \<lparr>message = ''User already registered'',
              token = create_access_token now (SubUserId (u_id u)),
              token_type = ''bearer''\<rparr>,
         s\<lparr>otps := remove1 r (otps s)\<rparr>)) \<and>
   (distinct (map u_email (users s)) \<longrightarrow>
      distinct (map u_email (users (snd (signup_verify chk now email otp s)))) \<and>
      distinct (map u_email (users (snd (signin_request hashpw code salt now email s))))) \<and>
   users (snd (verify_signup_otp now email otp s)) = users s"
proof (intro conjI allI impI)
  fix r u
  assume "find (\<lambda>r. o_email r = email) (otps s) = Some r \<and>
          find (\<lambda>u. u_email u = email) (users s) = Some u \<and>
          succeeded (signup_verify chk now email otp s)"
  then show "signup_verify chk now email otp s =
        (Inr \<lparr>message = ''User already registered'',
              token = create_access_token now (SubUserId (u_id u)),
              token_type = ''bearer''\<rparr>,
         s\<lparr>otps := remove1 r (otps s)\<rparr>)"
    using signup_verify_existing_user[of email s r u chk now otp] by blast
next
  assume d: "distinct (map u_email (users s))"
  show "distinct (map u_email (users (snd (signup_verify chk now email otp s))))"
    using signup_verify_users[of chk now email otp s] d distinct_emails_append[OF d]
    by metis
  show "distinct (map u_email (users (snd (signin_request hashpw code salt now email s))))"
    using signin_request_users[of hashpw code salt now email s] d distinct_emails_append[OF d]
    by metis
next
  show "users (snd (verify_signup_otp now email otp s)) = users s"
    by (rule verify_signup_otp_users)
qed

text \<open>
  The theorem at work: Ann holds an account and a pending signup code; her right code
  in minute one is answered "User already registered" with the token of user 1, the row
  is deleted and she remains the only user.
\<close>

theorem signup_verify_no_duplicate_user_witness:
  "signup_verify toy_checkpw (timedelta_minutes 1) ''ann@x.io'' ''482913'' db_member =
     (Inr \<lparr>message = ''User already registered'',
           token = \<lparr>sub = SubUserId 1, exp = timedelta_minutes 361\<rparr>,
           token_type = ''bearer''\<rparr>,
      db_member\<lparr>otps := []\<rparr>) \<and>
   distinct (map u_email (users (snd (signup_verify toy_checkpw (timedelta_minutes 1)
                                         ''ann@x.io'' ''482913'' db_member))))"
proof -
  note inst = signup_verify_no_duplicate_user[of "''ann@x.io''" db_member toy_checkpw
      "timedelta_minutes 1" "''482913''"]
  have r: "find (\<lambda>r. o_email r = ''ann@x.io'') (otps db_member) = Some ann_record"
    by (simp add: example_defs)
  have u: "find (\<lambda>u. u_email u = ''ann@x.io'') (users db_member) = Some ann_user"
    by (simp add: example_defs)
  have ok: "succeeded (signup_verify toy_checkpw (timedelta_minutes 1) ''ann@x.io'' ''482913''
              db_member)"
    using r u by (simp add: signup_verify_succeeded_iff example_defs)
  have d: "distinct (map u_email (users db_member))" by (simp add: example_defs)
  from inst r u ok
  have "signup_verify toy_checkpw (timedelta_minutes 1) ''ann@x.io'' ''482913'' db_member =
        (Inr \<lparr>message = ''User already registered'',
              token = create_access_token (timedelta_minutes 1) (SubUserId (u_id ann_user)),
              token_type = ''bearer''\<rparr>,
         db_member\<lparr>otps := remove1 ann_record (otps db_member)\<rparr>)"
    by blast
  then have "signup_verify toy_checkpw (timedelta_minutes 1) ''ann@x.io'' ''482913'' db_member =
     (Inr \<lparr>message = ''User already registered'',
           token = \<lparr>sub = SubUserId 1, exp = timedelta_minutes 361\<rparr>,
           token_type = ''bearer''\<rparr>,
      db_member\<lparr>otps := []\<rparr>)"
    by (simp add: create_access_token_def ACCESS_TOKEN_EXPIRE_MINUTES_def example_defs)
  moreover from inst d
  have "distinct (map u_email (users (snd (signup_verify toy_checkpw (timedelta_minutes 1)
                                         ''ann@x.io'' ''482913'' db_member))))"
    by blast
  ultimately show ?thesis by simp
qed

section \<open>Sent feedback\<close>

lemma share_step_feedback:
  "share_step now idx e (fb, s, us) = (fb', s', us') \<Longrightarrow>
   f_id fb' = f_id fb \<and> f_created_by fb' = f_created_by fb \<and> f_status fb' = f_status fb"
  by (auto simp: share_step_def Let_def split: option.splits prod.splits if_splits)

lemma share_step_feedbacks:
  "share_step now idx e (fb, s, us) = (fb', s', us') \<Longrightarrow>
   find (\<lambda>f. f_id f = f_id fb) (feedbacks s) = Some fb \<Longrightarrow>
   find (\<lambda>f. f_id f = f_id fb) (feedbacks s') = Some fb'"
  by (auto simp: share_step_def Let_def find_replace_row
      split: option.splits prod.splits if_splits)

lemma share_loop_feedbacks:
  "share_loop now idx es (fb, s, us) = (fb', s', us') \<Longrightarrow>
   find (\<lambda>f. f_id f = f_id fb) (feedbacks s) = Some fb \<Longrightarrow>
   f_id fb' = f_id fb \<and> f_created_by fb' = f_created_by fb \<and> f_status fb' = f_status fb \<and>
   find (\<lambda>f. f_id f = f_id fb) (feedbacks s') = Some fb'"
proof (induction es arbitrary: idx fb s us)
  case Nil
  then show ?case by simp
next
  case (Cons e es)
  obtain fb1 s1 us1 where st: "share_step now idx e (fb, s, us) = (fb1, s1, us1)"
    by (cases "share_step now idx e (fb, s, us)")
  from share_step_feedback[OF st] have id1: "f_id fb1 = f_id fb"
    "f_created_by fb1 = f_created_by fb" "f_status fb1 = f_status fb" by simp_all
  from share_step_feedbacks[OF st Cons.prems(2)] id1
  have "find (\<lambda>f. f_id f = f_id fb1) (feedbacks s1) = Some fb1" by simp
  moreover from Cons.prems(1) st
  have "share_loop now (Suc idx) es (fb1, s1, us1) = (fb', s', us')" by simp
  ultimately show ?case using Cons.IH id1 by metis
qed

lemma share_unfold:
  assumes "share_feedback_with_developers now fid emails uid s = (Inr res, s')"
  shows "\<exists>fb fb' us. find (\<lambda>f. f_id f = fid) (feedbacks s) = Some fb \<and>
           f_created_by fb = uid \<and>
           share_loop now 0 emails
             (fb\<lparr>f_status := Some sent\<rparr>,
              s\<lparr>feedbacks := replace_row fb (fb\<lparr>f_status := Some sent\<rparr>) (feedbacks s)\<rparr>, [])
             = (fb', s', us)"
  using assms
  by (auto simp: share_feedback_with_developers_def Let_def
      split: option.splits if_splits prod.splits)


lemma share_marks_sent:
  assumes "share_feedback_with_developers now fid emails uid s = (Inr res, s')"
  shows "\<exists>f. find (\<lambda>f. f_id f = fid) (feedbacks s') = Some f \<and> f_status f = Some sent"
proof -
  from share_unfold[OF assms] obtain fb fb' us where
    fb: "find (\<lambda>f. f_id f = fid) (feedbacks s) = Some fb"
    and loop: "share_loop now 0 emails
             (fb\<lparr>f_status := Some sent\<rparr>,
              s\<lparr>feedbacks := replace_row fb (fb\<lparr>f_status := Some sent\<rparr>) (feedbacks s)\<rparr>, [])
             = (fb', s', us)"
    by blast
  let ?f0 = "fb\<lparr>f_status := Some sent\<rparr>"
  let ?s0 = "s\<lparr>feedbacks := replace_row fb ?f0 (feedbacks s)\<rparr>"
  have fid: "f_id fb = fid" using fb by (rule find_Some_holds[where P="\<lambda>f. f_id f = fid"])
  have "find (\<lambda>f. f_id f = f_id ?f0) (feedbacks ?s0) = Some ?f0"
    using fb fid by (simp add: find_replace_row)
  from share_loop_feedbacks[OF loop this] fid
  show ?thesis by simp
qed

lemma delete_sent_feedback:
  "find (\<lambda>f. f_id f = fid) (feedbacks s) = Some f \<Longrightarrow> f_status f = Some sent \<Longrightarrow>
   delete_feedback fid caller s =
     (Inl (if f_created_by f = caller
           then HTTPException 400 ''Cannot delete sent feedback''
           else HTTPException 403 ''Only creator can delete feedback''), s)"
  by (simp add: delete_feedback_def)

lemma update_sent_feedback:
  "find (\<lambda>f. f_id f = fid) (feedbacks s) = Some f \<Longrightarrow> f_status f = Some sent \<Longrightarrow>
   update_feedback fid d caller s =
     (case find (\<lambda>w. w_id w = f_workspace_id f) (workspaces s) of
        None \<Rightarrow> (Inl (HTTPException 404 ''Workspace not found''), s)
      | Some w \<Rightarrow>
          (Inl (if w_owner_id w \<noteq> caller \<and>
                   find (\<lambda>c. c_workspace_id c = f_workspace_id f \<and> c_user_id c = Some caller)
                     (collaborators s) = None
                then HTTPException 403 ''No access to feedback''
                else HTTPException 400 ''Cannot update sent feedback''), s))"
  by (auto simp: update_feedback_def split: option.splits)

text \<open>
  Claim C6, as the code has it. A successful share leaves the feedback in status
  \<open>sent\<close>. For a feedback in status \<open>sent\<close>, every \<^verbatim>\<open>update_feedback\<close> and
  \<^verbatim>\<open>delete_feedback\<close> call, of the service and of the route, by any caller and with
  any update, fails and leaves the database as it was. The failure is the state error
  (400 "Cannot delete sent feedback", "Cannot update sent feedback") for a caller who
  passes the authorisation check that comes first: the creator for a delete, the owner
  or a collaborator of the feedback's workspace for an update. Another caller is turned
  away with 403 before the status is looked at.
\<close>

theorem sent_feedback_rejects_update_and_delete:
  "(\<forall>res s'. share_feedback_with_developers now fid emails uid s = (Inr res, s') \<longrightarrow>
       (\<exists>f. find (\<lambda>f. f_id f = fid) (feedbacks s') = Some f \<and> f_status f = Some sent)) \<and>
   (\<forall>f. find (\<lambda>f. f_id f = fid) (feedbacks s) = Some f \<and> f_status f = Some sent \<longrightarrow>
       (\<exists>e. update_feedback fid d caller s = (Inl e, s)) \<and>
       (\<exists>e. delete_feedback fid caller s = (Inl e, s)) \<and>
       (\<exists>e. update_feedback_route fid d caller s = (Inl e, s)) \<and>
       (\<exists>e. delete_feedback_route fid caller s = (Inl e, s)) \<and>
       delete_feedback fid caller s =
         (Inl (if f_created_by f = caller
               then HTTPException 400 ''Cannot delete sent feedback''
               else HTTPException 403 ''Only creator can delete feedback''), s) \<and>
       (\<forall>w. find (\<lambda>w. w_id w = f_workspace_id f) (workspaces s) = Some w \<longrightarrow>
          update_feedback fid d caller s =
            (Inl (if w_owner_id w \<noteq> caller \<and>
                     find (\<lambda>c. c_workspace_id c = f_workspace_id f \<and>
                                c_user_id c = Some caller) (collaborators s) = None
                  then HTTPException 403 ''No access to feedback''
                  else HTTPException 400 ''Cannot update sent feedback''), s)))"
proof (intro conjI allI impI)
  fix res s' assume "share_feedback_with_developers now fid emails uid s = (Inr res, s')"
  then show "\<exists>f. find (\<lambda>f. f_id f = fid) (feedbacks s') = Some f \<and> f_status f = Some sent"
    by (rule share_marks_sent)
next
  fix f assume "find (\<lambda>f. f_id f = fid) (feedbacks s) = Some f \<and> f_status f = Some sent"
  then have f: "find (\<lambda>f. f_id f = fid) (feedbacks s) = Some f" "f_status f = Some sent"
    by simp_all
  note del = delete_sent_feedback[OF f, of caller]
  note upd = update_sent_feedback[OF f, of d caller]
  show "\<exists>e. update_feedback fid d caller s = (Inl e, s)"
    unfolding upd by (simp split: option.splits)
  show "\<exists>e. delete_feedback fid caller s = (Inl e, s)"
    unfolding del by simp
  show "\<exists>e. update_feedback_route fid d caller s = (Inl e, s)"
    using f(1) unfolding update_feedback_route_def upd by (simp split: option.splits)
  show "\<exists>e. delete_feedback_route fid caller s = (Inl e, s)"
    using f(1) unfolding delete_feedback_route_def del by simp
  show "delete_feedback fid caller s =
         (Inl (if f_created_by f = caller
               then HTTPException 400 ''Cannot delete sent feedback''
               else HTTPException 403 ''Only creator can delete feedback''), s)"
    by (rule del)
  fix w assume "find (\<lambda>w. w_id w = f_workspace_id f) (workspaces s) = Some w"
  then show "update_feedback fid d caller s =
            (Inl (if w_owner_id w \<noteq> caller \<and>
                     find (\<lambda>c. c_workspace_id c = f_workspace_id f \<and>
                                c_user_id c = Some caller) (collaborators s) = None
                  then HTTPException 403 ''No access to feedback''
                  else HTTPException 400 ''Cannot update sent feedback''), s)"
    unfolding upd by simp
qed

lemmas acme_defs =
  db_acme_def db_empty_def acme_def fb_draft_def fb_sent_def dev1_def link1_def ann_user_def
  bob_user_def update_none_def

text \<open>
  The theorem at work on the second feedback of workspace 1, which is sent: user 1, its
  creator and the owner of the workspace, is refused the delete and the update with 400;
  and sharing the first feedback leaves it sent.
\<close>

theorem sent_feedback_rejects_update_and_delete_witness:
  "delete_feedback 2 1 db_acme =
     (Inl (HTTPException 400 ''Cannot delete sent feedback''), db_acme) \<and>
   update_feedback 2 update_none 1 db_acme =
     (Inl (HTTPException 400 ''Cannot update sent feedback''), db_acme) \<and>
   (\<exists>f. find (\<lambda>f. f_id f = 1)
           (feedbacks (snd (share_feedback_with_developers 0 1 [''dev@x.io''] 1 db_acme)))
           = Some f \<and> f_status f = Some sent)"
proof -
  have f: "find (\<lambda>f. f_id f = 2) (feedbacks db_acme) = Some fb_sent \<and>
           f_status fb_sent = Some sent"
    by (simp add: acme_defs)
  have w: "find (\<lambda>w. w_id w = f_workspace_id fb_sent) (workspaces db_acme) = Some acme"
    by (simp add: acme_defs)
  let ?sh = "share_feedback_with_developers 0 1 [''dev@x.io''] 1 db_acme"
  have sh: "?sh = (Inr (projr (fst ?sh)), snd ?sh)"
    by (simp add: share_feedback_with_developers_def Let_def acme_defs split: prod.splits)
  note share1 = sent_feedback_rejects_update_and_delete[of 0 1 "[''dev@x.io'']" 1 db_acme]
  note sent2 = sent_feedback_rejects_update_and_delete[of 0 2 "[]" 1 db_acme update_none 1]
  have "delete_feedback 2 1 db_acme =
     (Inl (HTTPException 400 ''Cannot delete sent feedback''), db_acme)"
    using sent2 f by (simp add: acme_defs)
  moreover have "update_feedback 2 update_none 1 db_acme =
     (Inl (HTTPException 400 ''Cannot update sent feedback''), db_acme)"
    using sent2 f w by (simp add: acme_defs)
  moreover have "\<exists>f. find (\<lambda>f. f_id f = 1) (feedbacks (snd ?sh)) = Some f \<and>
      f_status f = Some sent"
    using share1 sh by blast
  ultimately show ?thesis by blast
qed

text \<open>
  Where the claim as worded fails: user 2, who is neither the creator of the sent
  feedback nor a member of its workspace, is answered 403 by the delete and by the
  update, not the state error.
\<close>

theorem sent_feedback_counterexample:
  "find (\<lambda>f. f_id f = 2) (feedbacks db_acme) = Some fb_sent \<and>
   f_status fb_sent = Some sent \<and>
   delete_feedback 2 2 db_acme =
     (Inl (HTTPException 403 ''Only creator can delete feedback''), db_acme) \<and>
   update_feedback 2 update_none 2 db_acme =
     (Inl (HTTPException 403 ''No access to feedback''), db_acme)"
  by (simp add: delete_feedback_def update_feedback_def acme_defs)

section \<open>Sharing twice\<close>


















section \<open>The developer's action\<close>

text \<open>
  The action succeeds exactly when the developer and the link exist and the string is
  one of the three values of the enum; otherwise nothing is written.
\<close>

lemma handle_developer_action_succeeded_iff:
  "succeeded (handle_developer_action now fid email action s) \<longleftrightarrow>
     (\<exists>d. find (\<lambda>d. d_email d = email) (developers s) = Some d \<and>
          find (\<lambda>l. l_feedback_id l = fid \<and> l_developer_id l = d_id d)
            (feedback_developers s) \<noteq> None) \<and>
     action \<in> {''pending'', ''acknowledged'', ''unclear''}"
  by (auto simp: handle_developer_action_def succeeded_def FeedbackDeveloperStatus_of_def
      split: option.splits)

lemma handle_developer_action_failure_keeps:
  "\<not> succeeded (handle_developer_action now fid email action s) \<Longrightarrow>
   snd (handle_developer_action now fid email action s) = s"
  by (auto simp: handle_developer_action_def succeeded_def split: option.splits)

text \<open>
  Claim C8 on the code. The route takes the action as a free string and the service
  looks it up among all three values of \<^verbatim>\<open>FeedbackDeveloperStatus\<close>, so
  \<^verbatim>\<open>pending\<close> is accepted: developer 1 has acknowledged the second feedback, and
  the action "pending" in minute seven succeeds, sets the link back to \<open>pending\<close>
  and stamps it with the Indian wall clock of that minute. An action outside the enum,
  "maybe", is answered 400 and changes nothing.
\<close>

theorem developer_action_accepts_pending:
  "find (\<lambda>l. l_feedback_id l = 2 \<and> l_developer_id l = 1) (feedback_developers db_acme) =
     Some link1 \<and>
   l_status link1 = acknowledged \<and>
   developer_action (timedelta_minutes 7) 2 ''pending'' ''dev@x.io'' db_acme =
     (Inr (''Feedback marked as '' @ [CHR 0x27] @ ''pending'' @ [CHR 0x27] @
           '' by dev@x.io''),
      db_acme\<lparr>feedback_developers :=
        [link1\<lparr>l_status := pending,
                l_action_time := Some (timedelta_minutes 7 + timedelta_minutes 330)\<rparr>]\<rparr>) \<and>
   developer_action (timedelta_minutes 7) 2 ''maybe'' ''dev@x.io'' db_acme =
     (Inl (HTTPException 400 ''Invalid action''), db_acme)"
  by (simp add: developer_action_def handle_developer_action_def
      FeedbackDeveloperStatus_of_def now_ist_def acme_defs)

section \<open>The public listing\<close>

text \<open>
  Claim C10. For a workspace that exists, \<^verbatim>\<open>get_all_feedbacks_by_workspace\<close>
  called without a user, and the route \<^verbatim>\<open>/feedback/all\<close>, which calls it so,
  return every feedback row of the workspace: the result does not depend on the
  collaborators or on the access grants, which are not read. The access check is run
  for a user that is given: one who is neither the owner nor a collaborator of the
  workspace is answered 403.
\<close>

theorem public_listing_unchecked:
  "\<forall>w. find (\<lambda>w. w_id w = wid) (workspaces s) = Some w \<longrightarrow>
      get_all_feedbacks_by_workspace s wid None =
        Inr (filter (\<lambda>f. f_workspace_id f = wid) (feedbacks s)) \<and>
      list_all_feedbacks_by_workspace s wid =
        Inr (filter (\<lambda>f. f_workspace_id f = wid) (feedbacks s)) \<and>
      (\<forall>cs gs. get_all_feedbacks_by_workspace
                  (s\<lparr>collaborators := cs, feedback_accesses := gs\<rparr>) wid None =
                get_all_feedbacks_by_workspace s wid None) \<and>
      (\<forall>uid. w_owner_id w \<noteq> uid \<and>
             find (\<lambda>c. c_workspace_id c = wid \<and> c_user_id c = Some uid) (collaborators s)
               = None \<longrightarrow>
             get_all_feedbacks_by_workspace s wid (Some uid) =
               Inl (HTTPException 403 ''No access to workspace''))"
  by (simp add: get_all_feedbacks_by_workspace_def list_all_feedbacks_by_workspace_def
      Let_def)

text \<open>
  The theorem at work: the public route lists both feedbacks of workspace 1, while
  user 2, a stranger to the workspace, is refused when the service is given his id.
\<close>

theorem public_listing_unchecked_witness:
  "list_all_feedbacks_by_workspace db_acme 1 = Inr [fb_draft, fb_sent] \<and>
   get_all_feedbacks_by_workspace db_acme 1 (Some 2) =
     Inl (HTTPException 403 ''No access to workspace'')"
proof -
  have w: "find (\<lambda>w. w_id w = 1) (workspaces db_acme) = Some acme"
    by (simp add: acme_defs)
  note inst = public_listing_unchecked[of 1 db_acme]
  have "list_all_feedbacks_by_workspace db_acme 1 = Inr [fb_draft, fb_sent]"
    using inst w by (simp add: acme_defs)
  moreover have "get_all_feedbacks_by_workspace db_acme 1 (Some 2) =
     Inl (HTTPException 403 ''No access to workspace'')"
    using inst w by (simp add: acme_defs)
  ultimately show ?thesis by simp
qed


end
